theory Spec2Isabelle
  imports Complex_Main
begin

section \<open>Text of the form fields\<close>

text \<open>
  The text held by a form field is a \<^typ>\<open>string\<close>, one \<^typ>\<open>char\<close> for each code unit
  of the JavaScript string; the model covers the code units below 256.  The
  characters that \<^verbatim>\<open>String.prototype.trim\<close> strips (WhiteSpace and LineTerminator of
  ECMAScript) are, in that range, TAB, LF, VT, FF, CR, SPACE and NBSP.
\<close>

definition isWhiteSpace :: "char \<Rightarrow> bool" where
  "isWhiteSpace c = ((of_char c :: nat) \<in> {9, 10, 11, 12, 13, 32, 160})"

definition trim :: "string \<Rightarrow> string" where
  "trim s = rev (dropWhile isWhiteSpace (rev (dropWhile isWhiteSpace s)))"

text \<open>\<^verbatim>\<open>s || undefined\<close> for a string \<open>s\<close>: the empty string is the only falsy string.\<close>

definition or_undefined :: "string \<Rightarrow> string option" where
  "or_undefined s = (if s = [] then None else Some s)"

section \<open>ProgressDashboard\<close>

subsection \<open>The phase tracker\<close>

text \<open>The entries of \<^verbatim>\<open>phases\<close>; the icon component of an entry does not take part in
  any decision and is left out.\<close>

record phase_info =
  name :: string
  label :: string

definition phases :: "phase_info list" where
  "phases =
    [\<lparr>name = ''PLANNING'', label = ''Planning''\<rparr>,
     \<lparr>name = ''PLAN_CRITIQUE'', label = ''Plan Review''\<rparr>,
     \<lparr>name = ''WRITING'', label = ''Writing''\<rparr>,
     \<lparr>name = ''WRITE_CRITIQUE'', label = ''Chunk Review''\<rparr>]"

text \<open>\<^verbatim>\<open>Array.prototype.findIndex\<close>: the index of the first element that satisfies the
  predicate, \<open>-1\<close> when there is none.\<close>

fun findIndex_from :: "('a \<Rightarrow> bool) \<Rightarrow> 'a list \<Rightarrow> int \<Rightarrow> int" where
  "findIndex_from p [] i = - 1"
| "findIndex_from p (x # xs) i = (if p x then i else findIndex_from p xs (i + 1))"

definition findIndex :: "('a \<Rightarrow> bool) \<Rightarrow> 'a list \<Rightarrow> int" where
  "findIndex p xs = findIndex_from p xs 0"

definition getCurrentPhaseIndex :: "string \<Rightarrow> int" where
  "getCurrentPhaseIndex phase = findIndex (\<lambda>p. name p = phase) phases"

text \<open>One rendered step of the tracker: the two flags computed in the \<^verbatim>\<open>phases.map\<close>
  callback, the classes they select for the circle and for the label, and the class of
  the connector that follows every step but the last.\<close>

record phase_step =
  step_label :: string
  isActive :: bool
  isCompleted :: bool
  circle_class :: string
  label_class :: string
  connector_class :: "string option"

definition render_step :: "int \<Rightarrow> int \<Rightarrow> phase_info \<Rightarrow> phase_step" where
  "render_step currentPhaseIndex index phaseInfo =
    (let active = (index = currentPhaseIndex);
         completed = (index < currentPhaseIndex)
     in \<lparr>step_label = label phaseInfo,
         isActive = active,
         isCompleted = completed,
         circle_class =
           (if active then ''bg-blue-600 text-white''
            else if completed then ''bg-green-600 text-white''
            else ''bg-gray-200 text-gray-400''),
         label_class =
           (if active then ''text-blue-600''
            else if completed then ''text-green-600''
            else ''text-gray-400''),
         connector_class =
           (if index < int (length phases) - 1
            then Some (if completed then ''bg-green-600'' else ''bg-gray-200'')
            else None)\<rparr>)"

definition render_phase_steps :: "string \<Rightarrow> phase_step list" where
  "render_phase_steps phase =
    map (\<lambda>(index, phaseInfo). render_step (getCurrentPhaseIndex phase) (int index) phaseInfo)
      (enumerate 0 phases)"

subsection \<open>The context-usage bar\<close>

text \<open>\<open>tokenPercentage\<close> is the finite number the dashboard receives; only its order
  against the constants 75, 90 and 100 is used, so it is a \<^typ>\<open>real\<close> here.  The section
  is rendered only when \<open>tokenLimit > 0\<close>.\<close>

record token_bar =
  bar_class :: string
  bar_width :: real

definition tokenBarClass :: "real \<Rightarrow> string" where
  "tokenBarClass tokenPercentage =
    (if tokenPercentage > 90 then ''bg-red-600''
     else if tokenPercentage > 75 then ''bg-yellow-600''
     else ''bg-blue-600'')"

definition render_token_usage :: "int \<Rightarrow> real \<Rightarrow> token_bar option" where
  "render_token_usage tokenLimit tokenPercentage =
    (if tokenLimit > 0
     then Some \<lparr>bar_class = tokenBarClass tokenPercentage,
                bar_width = min tokenPercentage 100\<rparr>
     else None)"

section \<open>ApprovalModal\<close>

subsection \<open>Decisions\<close>

text \<open>The object handed to the callbacks: \<^verbatim>\<open>{ approved, notes }\<close>, where \<open>None\<close> is a
  \<^verbatim>\<open>notes\<close> of \<^verbatim>\<open>undefined\<close>.\<close>

record Decision =
  approved :: bool
  decision_notes :: "string option"

text \<open>\<^verbatim>\<open>handleApprove\<close> and \<^verbatim>\<open>handleReject\<close> read the notes field of the component
  state, hand a decision to the \<^verbatim>\<open>onApprove\<close> / \<^verbatim>\<open>onReject\<close> callback and clear the
  field.  The result is the decision handed over and the new contents of the field.\<close>

definition handleApprove :: "string \<Rightarrow> Decision \<times> string" where
  "handleApprove notes_text =
     (\<lparr>approved = True, decision_notes = or_undefined (trim notes_text)\<rparr>, [])"

definition handleReject :: "string \<Rightarrow> Decision \<times> string" where
  "handleReject notes_text =
     (\<lparr>approved = False, decision_notes = or_undefined (trim notes_text)\<rparr>, [])"

subsection \<open>The files to review\<close>

text \<open>Of \<^verbatim>\<open>approvalData\<close> only \<^verbatim>\<open>chunk_number\<close> is read.  The prop may be missing and so
  may the field (\<open>None\<close>); a field that is present holds a JavaScript value of any kind, a
  value of the type \<open>'v\<close>.\<close>

record 'v approval_data =
  chunk_number :: "'v option"

record approval_info =
  title :: string
  icon :: string
  description :: string
  files :: "string list"

text \<open>\<^verbatim>\<open>approvalData?.chunk_number || '?'\<close> inside a template literal.  Whether a value is
  truthy and how a template literal prints it are the language's \<open>ToBoolean\<close> and
  \<open>ToString\<close>; they are parameters here.  A missing prop and a missing field are
  \<^verbatim>\<open>undefined\<close>, which is falsy.\<close>

definition chunk_number_text ::
  "('v \<Rightarrow> bool) \<Rightarrow> ('v \<Rightarrow> string) \<Rightarrow> 'v approval_data option \<Rightarrow> string" where
  "chunk_number_text ToBoolean ToString approvalData =
     (case approvalData of
        None \<Rightarrow> ''?''
      | Some d \<Rightarrow>
          (case chunk_number d of
             None \<Rightarrow> ''?''
           | Some v \<Rightarrow> if ToBoolean v then ToString v else ''?''))"

definition getApprovalInfo ::
  "('v \<Rightarrow> bool) \<Rightarrow> ('v \<Rightarrow> string) \<Rightarrow> string \<Rightarrow> 'v approval_data option \<Rightarrow> approval_info" where
  "getApprovalInfo ToBoolean ToString approvalType approvalData =
     (if approvalType = ''plan'' then
        \<lparr>title = ''Plan Approval Required'',
         icon = ''FileText'',
         description = ''The planning phase is complete. Please review the plan materials before proceeding to the writing phase.'',
         files =
           [''summary.txt - Story summary'',
            ''dramatis_personae.txt - Character descriptions'',
            ''story_structure.txt - Three-act structure'',
            ''plot_outline.txt - Chunk-by-chunk outline'']\<rparr>
      else if approvalType = ''chunk'' then
        \<lparr>title = ''Chunk '' @ chunk_number_text ToBoolean ToString approvalData @ '' Approval'',
         icon = ''FileText'',
         description = ''This chunk has been written and reviewed. Please approve it to continue to the next chunk.'',
         files =
           [''chunk_'' @ chunk_number_text ToBoolean ToString approvalData
              @ ''.txt - Chunk content'']\<rparr>
      else
        \<lparr>title = ''Approval Required'',
         icon = ''AlertCircle'',
         description = ''Please review and approve to continue.'',
         files = []\<rparr>)"

text \<open>An entry of the list reads \<^verbatim>\<open><file> - <what it is>\<close>; the file it names is the
  text before the first space.\<close>

definition listed_file :: "string \<Rightarrow> string" where
  "listed_file entry = takeWhile (\<lambda>c. c \<noteq> CHR '' '') entry"

text \<open>The file of chunk \<open>N\<close> in the persisted layout is \<^verbatim>\<open>chunk_N.txt\<close>, with \<open>N\<close> written
  as its decimal numeral.\<close>

definition digit_char :: "nat \<Rightarrow> char" where
  "digit_char d = ''0123456789'' ! d"

fun show_nat :: "nat \<Rightarrow> string" where
  "show_nat n = (if n < 10 then [digit_char n] else show_nat (n div 10) @ [digit_char (n mod 10)])"

declare show_nat.simps [simp del]

definition chunk_file :: "nat \<Rightarrow> string" where
  "chunk_file n = ''chunk_'' @ show_nat n @ ''.txt''"

subsection \<open>The instruction box\<close>


section \<open>Requests to the backend\<close>

text \<open>The values that occur in a request body.  An object under construction is a list
  of keys with optional values, \<open>None\<close> for a property whose value is \<^verbatim>\<open>undefined\<close>;
  \<^verbatim>\<open>JSON.stringify\<close> leaves such a property out and keeps every other one, \<^verbatim>\<open>null\<close>
  included.  A number that is \<^verbatim>\<open>NaN\<close> (\<open>None\<close> in a numeric field) is written
  as \<^verbatim>\<open>null\<close>.\<close>

datatype json_value = JNull | JBool bool | JNum int | JStr string

type_synonym js_object = "(string \<times> json_value option) list"

definition JSON_stringify :: "js_object \<Rightarrow> (string \<times> json_value) list" where
  "JSON_stringify obj = concat (map (\<lambda>(k, v). case v of None \<Rightarrow> [] | Some w \<Rightarrow> [(k, w)]) obj)"

definition json_number :: "int option \<Rightarrow> json_value" where
  "json_number n = (case n of None \<Rightarrow> JNull | Some i \<Rightarrow> JNum i)"

record api_request =
  endpoint :: string
  http_method :: string
  body :: "(string \<times> json_value) list"

definition createProject :: "js_object \<Rightarrow> api_request" where
  "createProject config_object =
     \<lparr>endpoint = ''/config'', http_method = ''POST'', body = JSON_stringify config_object\<rparr>"

section \<open>ConfigPanel\<close>

text \<open>The two critique caps are the object that QualityControlSettings edits; the
  configuration of ConfigPanel holds them among its other fields.  A cap is set from
  \<^verbatim>\<open>parseInt\<close> of a number input, \<open>None\<close> when that is \<^verbatim>\<open>NaN\<close>.\<close>

record quality_config =
  max_plan_critique_iterations :: "int option"
  max_write_critique_iterations :: "int option"

text \<open>The \<^verbatim>\<open>config\<close> state of ConfigPanel.  \<^verbatim>\<open>project_name\<close> and \<^verbatim>\<open>theme\<close> are read
  with \<^verbatim>\<open>?.\<close>, so they may be missing (\<open>None\<close>); \<^verbatim>\<open>custom_word_count\<close> and
  \<^verbatim>\<open>writing_sample_id\<close> are a value or \<^verbatim>\<open>null\<close> (\<open>None\<close>).\<close>

record project_config = quality_config +
  project_name :: "string option"
  theme :: "string option"
  model_id :: string
  novel_length :: string
  custom_word_count :: "int option"
  genre :: string
  writing_sample_id :: "string option"
  custom_writing_sample :: string
  require_plan_approval :: bool
  require_chunk_approval :: bool

text \<open>The initial state when no \<^verbatim>\<open>initialConfig\<close> is given.\<close>

definition default_config :: project_config where
  "default_config =
     \<lparr>max_plan_critique_iterations = Some 2,
      max_write_critique_iterations = Some 2,
      project_name = Some [],
      theme = Some [],
      model_id = ''kimi-k2-thinking'',
      novel_length = ''novel'',
      custom_word_count = None,
      genre = [],
      writing_sample_id = None,
      custom_writing_sample = [],
      require_plan_approval = True,
      require_chunk_approval = False\<rparr>"

record panel_state =
  config :: project_config
  errors :: "(string \<times> string) list"

text \<open>\<^verbatim>\<open>!x?.trim()\<close>: true for a missing value and for a text that trims to nothing.\<close>

definition not_trimmed :: "string option \<Rightarrow> bool" where
  "not_trimmed x = (case x of None \<Rightarrow> True | Some s \<Rightarrow> trim s = [])"

text \<open>\<^verbatim>\<open>!n || n < 1000\<close> for a number or \<^verbatim>\<open>null\<close>.\<close>

definition word_count_too_small :: "int option \<Rightarrow> bool" where
  "word_count_too_small n = (case n of None \<Rightarrow> True | Some i \<Rightarrow> i = 0 \<or> i < 1000)"

text \<open>The object \<^verbatim>\<open>newErrors\<close> that \<^verbatim>\<open>validate\<close> builds, its keys in the order of the
  checks.\<close>

definition newErrors :: "project_config \<Rightarrow> (string \<times> string) list" where
  "newErrors c =
     (if not_trimmed (project_name c)
      then [(''project_name'', ''Project name is required'')] else []) @
     (if not_trimmed (theme c)
      then [(''theme'', ''Theme is required'')] else []) @
     (if novel_length c = ''custom'' \<and> word_count_too_small (custom_word_count c)
      then [(''custom_word_count'', ''Word count must be at least 1,000 words'')] else []) @
     (if custom_writing_sample c \<noteq> [] \<and> length (custom_writing_sample c) < 100
      then [(''custom_writing_sample'', ''Writing sample must be at least 100 characters'')]
      else [])"

definition validate :: "panel_state \<Rightarrow> panel_state \<times> bool" where
  "validate st =
     (let new_errors = newErrors (config st)
      in (st\<lparr>errors := new_errors\<rparr>, length (map fst new_errors) = 0))"

text \<open>\<^verbatim>\<open>handleSubmit\<close>: the new state, and the argument of the call of \<^verbatim>\<open>onSave\<close> when
  there is one.\<close>

definition handleSubmit :: "panel_state \<Rightarrow> panel_state \<times> project_config option" where
  "handleSubmit st =
     (let (st', ok) = validate st
      in if \<not> ok then (st', None) else (st', Some (config st)))"

text \<open>Validity of a configuration in the words of the specification: project name and
  theme are not blank after trimming, a custom length comes with a word count of at least
  1000, and a writing sample that is not empty has at least 100 characters.\<close>

definition spec_valid :: "project_config \<Rightarrow> bool" where
  "spec_valid c =
     ((\<exists>s. project_name c = Some s \<and> trim s \<noteq> []) \<and>
      (\<exists>s. theme c = Some s \<and> trim s \<noteq> []) \<and>
      (novel_length c = ''custom'' \<longrightarrow> (\<exists>n. custom_word_count c = Some n \<and> 1000 \<le> n)) \<and>
      (custom_writing_sample c \<noteq> [] \<longrightarrow> 100 \<le> length (custom_writing_sample c)))"

section \<open>Home\<close>

record style_card =
  card_name :: string
  sample :: "string option"

text \<open>The form state of the page: the state variables that \<^verbatim>\<open>handleCreateProject\<close>
  reads (\<^verbatim>\<open>title\<close>, \<^verbatim>\<open>genre\<close> and \<^verbatim>\<open>length\<close> carry a prefix here).\<close>

record home_form =
  premise :: string
  form_title :: string
  form_genre :: string
  form_length :: string
  styleCards :: "style_card list"
  requirePlanApproval :: bool
  requireChunkApproval :: bool
  qualityConfig :: quality_config

text \<open>\<^verbatim>\<open>styleCards.find(card => card.sample?.trim())\<close>: the first card whose sample is
  present and does not trim to nothing.\<close>

definition selectedStyle :: "style_card list \<Rightarrow> style_card option" where
  "selectedStyle cards = List.find (\<lambda>style. \<not> not_trimmed (sample style)) cards"

definition home_config :: "home_form \<Rightarrow> js_object" where
  "home_config f =
     [(''project_name'', map_option JStr (or_undefined (trim (form_title f)))),
      (''theme'', Some (JStr (trim (premise f)))),
      (''novel_length'',
         if form_length f = ''ai_decide'' then None else Some (JStr (form_length f))),
      (''genre'', map_option JStr (or_undefined (trim (form_genre f)))),
      (''custom_writing_sample'',
         map_option JStr
           (case selectedStyle (styleCards f) of
              None \<Rightarrow> None
            | Some style \<Rightarrow> (case sample style of None \<Rightarrow> None | Some s \<Rightarrow> or_undefined s))),
      (''require_plan_approval'', Some (JBool (requirePlanApproval f))),
      (''require_chunk_approval'', Some (JBool (requireChunkApproval f))),
      (''max_plan_critique_iterations'',
         Some (json_number (max_plan_critique_iterations (qualityConfig f)))),
      (''max_write_critique_iterations'',
         Some (json_number (max_write_critique_iterations (qualityConfig f))))]"

text \<open>\<^verbatim>\<open>handleCreateProject\<close> up to the call of the backend: the message handed to
  \<^verbatim>\<open>setError\<close> when the premise is blank, the request otherwise.\<close>

definition handleCreateProject :: "home_form \<Rightarrow> string + api_request" where
  "handleCreateProject f =
     (if trim (premise f) = [] then Inl ''Please enter a premise for your novel''
      else Inr (createProject (home_config f)))"

text \<open>The form as the page first shows it, with a premise typed in.\<close>

definition initial_home_form :: "string \<Rightarrow> home_form" where
  "initial_home_form p =
     \<lparr>premise = p, form_title = [], form_genre = [], form_length = ''ai_decide'',
      styleCards = [\<lparr>card_name = [], sample = Some []\<rparr>,
                    \<lparr>card_name = [], sample = Some []\<rparr>,
                    \<lparr>card_name = [], sample = Some []\<rparr>],
      requirePlanApproval = True, requireChunkApproval = False,
      qualityConfig = \<lparr>max_plan_critique_iterations = Some 2,
                       max_write_critique_iterations = Some 2\<rparr>\<rparr>"

section \<open>ProjectBrowser\<close>

text \<open>Of a project only \<^verbatim>\<open>project_id\<close> is read by \<^verbatim>\<open>handleDelete\<close>; the record scheme
  stands for a project with any further fields.\<close>

record project =
  project_id :: string

record 'p browser_state =
  projects :: "'p project_scheme list"
  deleteConfirm :: "string option"

text \<open>\<^verbatim>\<open>handleDelete\<close>.  The first argument is the backend: the outcome of awaiting
  \<^verbatim>\<open>api.deleteProject(projectId)\<close>, \<open>Inl\<close> the error of a rejected call.  The \<^verbatim>\<open>catch\<close>
  branch only logs.\<close>

definition handleDelete ::
  "(string \<Rightarrow> string + unit) \<Rightarrow> string \<Rightarrow> 'p browser_state \<Rightarrow> 'p browser_state" where
  "handleDelete deleteProject projectId st =
     (case deleteProject projectId of
        Inr _ \<Rightarrow>
          st\<lparr>projects := filter (\<lambda>p. project_id p \<noteq> projectId) (projects st),
             deleteConfirm := None\<rparr>
      | Inl error \<Rightarrow> st)"

section \<open>The orchestration core\<close>

subsection \<open>TokenBudgetManager\<close>

text \<open>Modelled from the spec: the TokenBudgetManager of the backend is not among the
  sources.  A token budget is the current estimated token count, the hard limit and the
  compression trigger threshold, a configured fraction of the limit (90 percent of it as
  the backend is configured: 180,000 of 200,000 tokens).\<close>

record TokenBudget =
  estimated_count :: nat
  hard_limit :: nat
  trigger_threshold :: nat

text \<open>Modelled from the spec: a budget for a hard limit, with the trigger at 90 percent of
  it and nothing used yet.\<close>

definition new_budget :: "nat \<Rightarrow> TokenBudget" where
  "new_budget limit =
     \<lparr>estimated_count = 0, hard_limit = limit, trigger_threshold = (limit * 90) div 100\<rparr>"

text \<open>Modelled from the spec: \<^verbatim>\<open>shouldCompress()\<close> of the absent TokenBudgetManager, true
  once usage has reached the trigger threshold.\<close>

definition shouldCompress :: "TokenBudget \<Rightarrow> bool" where
  "shouldCompress b = (trigger_threshold b \<le> estimated_count b)"

text \<open>Modelled from the spec: usage as a percentage of the hard limit, the number shown on
  the dashboard as \<^verbatim>\<open>tokenPercentage\<close>; it is computed outside the sources.\<close>

definition usage_percentage :: "TokenBudget \<Rightarrow> real" where
  "usage_percentage b = 100 * real (estimated_count b) / real (hard_limit b)"

subsection \<open>CritiqueLoopController\<close>

text \<open>Modelled from the spec: the CritiqueLoopController of the backend is not among the
  sources.  The critic answers with a verdict; a malformed or missing verdict counts as a
  request to revise with empty feedback, never as approval.\<close>

datatype verdict = Approve | Revise string | Malformed

fun feedback_of :: "verdict \<Rightarrow> string" where
  "feedback_of (Revise text) = text"
| "feedback_of _ = []"

datatype loop_outcome = approved_by_critic | auto_approved_at_cap

text \<open>Modelled from the spec: what \<^verbatim>\<open>runLoop\<close> returns, the artifact with the outcome
  that tells genuine approval from forced termination, and the critic's verdicts in the
  order of the rounds (one producer call and one critic call each).\<close>

record 'a loop_result =
  artifact :: 'a
  outcome :: loop_outcome
  verdicts :: "verdict list"

definition rounds :: "'a loop_result \<Rightarrow> nat" where
  "rounds r = length (verdicts r)"

text \<open>Modelled from the spec: the loop of \<^verbatim>\<open>runLoop\<close>.  The producer produces or revises
  the artifact from the feedback it is given (none in the first round) and the critic
  judges the result; both are the external model, functions of the round and of what
  they are handed.  On approval the loop returns at once.  Otherwise the iteration count
  is incremented; when it equals \<open>maxIterations\<close> the artifact is auto-approved, else
  the feedback goes back to the producer.  The test is the equality of the specification,
  so the loop is a partial function: \<open>None\<close> is a loop that does not return.\<close>

partial_function (option) runLoop_from ::
  "(nat \<Rightarrow> 'a \<Rightarrow> string option \<Rightarrow> 'a) \<Rightarrow> (nat \<Rightarrow> 'a \<Rightarrow> verdict) \<Rightarrow> nat \<Rightarrow>
   'a \<Rightarrow> string option \<Rightarrow> nat \<Rightarrow> verdict list \<Rightarrow> 'a loop_result option" where
  "runLoop_from producerAgent criticAgent maxIterations current feedback iteration seen =
     (let produced = producerAgent iteration current feedback;
          v = criticAgent iteration produced
      in if v = Approve
         then Some \<lparr>artifact = produced, outcome = approved_by_critic, verdicts = seen @ [v]\<rparr>
         else if iteration + 1 = maxIterations
         then Some \<lparr>artifact = produced, outcome = auto_approved_at_cap, verdicts = seen @ [v]\<rparr>
         else runLoop_from producerAgent criticAgent maxIterations produced
                (Some (feedback_of v)) (iteration + 1) (seen @ [v]))"

text \<open>Modelled from the spec: \<^verbatim>\<open>runLoop(producerAgent, criticAgent, artifact, maxIterations)\<close>,
  the loop started with a fresh iteration counter.\<close>

definition runLoop ::
  "(nat \<Rightarrow> 'a \<Rightarrow> string option \<Rightarrow> 'a) \<Rightarrow> (nat \<Rightarrow> 'a \<Rightarrow> verdict) \<Rightarrow> 'a \<Rightarrow> nat \<Rightarrow>
   'a loop_result option" where
  "runLoop producerAgent criticAgent initial maxIterations =
     runLoop_from producerAgent criticAgent maxIterations initial None 0 []"

section \<open>Theorems\<close>

subsection \<open>ProgressDashboard\<close>

lemma findIndex_from_none:
  "(\<forall>x \<in> set xs. \<not> p x) \<Longrightarrow> findIndex_from p xs i = - 1"
  by (induction xs arbitrary: i) simp_all

text \<open>
  Claim C10.  Whenever the token limit is positive the context-usage bar is drawn, and
  for every \<open>tokenPercentage\<close> its width is \<open>min tokenPercentage 100\<close> percent, so it is
  never more than 100 percent of the track, also when the reported usage is above the
  hard limit.
\<close>

theorem token_bar_width_capped:
  "0 < tokenLimit \<Longrightarrow>
     (\<exists>bar. render_token_usage tokenLimit tokenPercentage = Some bar
            \<and> bar_width bar = min tokenPercentage 100
            \<and> bar_width bar \<le> 100)"
  by (simp add: render_token_usage_def)

theorem token_bar_width_capped_witness:
  "(0::int) < 200000
   \<and> map_option bar_width (render_token_usage 200000 120) = Some 100
   \<and> map_option bar_width (render_token_usage 200000 150) = Some 100
   \<and> map_option bar_width (render_token_usage 200000 100) = Some 100
   \<and> map_option bar_width (render_token_usage 200000 45) = Some 45"
proof -
  have pos: "(0::int) < 200000" by simp
  from token_bar_width_capped [OF pos, of 120] token_bar_width_capped [OF pos, of 150]
    token_bar_width_capped [OF pos, of 100] token_bar_width_capped [OF pos, of 45]
  show ?thesis by auto
qed

subsection \<open>Trimming\<close>

lemma trim_empty_iff: "trim s = [] \<longleftrightarrow> (\<forall>c \<in> set s. isWhiteSpace c)"
proof
  assume "trim s = []"
  then have "dropWhile isWhiteSpace (rev (dropWhile isWhiteSpace s)) = []"
    by (simp add: trim_def)
  then have all: "\<forall>c \<in> set (dropWhile isWhiteSpace s). isWhiteSpace c"
    by (simp add: dropWhile_eq_Nil_conv)
  have "dropWhile isWhiteSpace s = []"
  proof (rule ccontr)
    assume ne: "dropWhile isWhiteSpace s \<noteq> []"
    then have "\<not> isWhiteSpace (hd (dropWhile isWhiteSpace s))"
      by (rule hd_dropWhile)
    moreover from ne have "hd (dropWhile isWhiteSpace s) \<in> set (dropWhile isWhiteSpace s)"
      by simp
    ultimately show False using all by blast
  qed
  then show "\<forall>c \<in> set s. isWhiteSpace c"
    by (simp add: dropWhile_eq_Nil_conv)
next
  assume "\<forall>c \<in> set s. isWhiteSpace c"
  then show "trim s = []"
    by (auto simp: trim_def dest: set_dropWhileD)
qed

subsection \<open>CritiqueLoopController\<close>

text \<open>Started below the cap, the loop returns; it adds at least one verdict and at most as
  many as there are iterations left, and exactly that many, ending in auto-approval, when
  the critic never approves.\<close>

lemma runLoop_from_returns:
  "iteration < maxIterations \<Longrightarrow>
   \<exists>r. runLoop_from P C maxIterations cur fb iteration seen = Some r
     \<and> length seen < length (verdicts r)
     \<and> length (verdicts r) \<le> length seen + (maxIterations - iteration)
     \<and> ((\<forall>i a. C i a \<noteq> Approve) \<longrightarrow>
          length (verdicts r) = length seen + (maxIterations - iteration)
          \<and> outcome r = auto_approved_at_cap)"
proof (induction "maxIterations - iteration" arbitrary: iteration cur fb seen)
  case 0
  then show ?case by simp
next
  case (Suc k)
  define produced where "produced = P iteration cur fb"
  define v where "v = C iteration produced"
  show ?case
  proof (cases "v = Approve")
    case True
    then have "runLoop_from P C maxIterations cur fb iteration seen =
      Some \<lparr>artifact = produced, outcome = approved_by_critic, verdicts = seen @ [v]\<rparr>"
      by (subst runLoop_from.simps) (simp add: produced_def v_def Let_def)
    moreover have "\<not> (\<forall>i a. C i a \<noteq> Approve)"
      using True v_def by auto
    ultimately show ?thesis using Suc.prems by auto
  next
    case notApprove: False
    show ?thesis
    proof (cases "iteration + 1 = maxIterations")
      case True
      with notApprove have "runLoop_from P C maxIterations cur fb iteration seen =
        Some \<lparr>artifact = produced, outcome = auto_approved_at_cap, verdicts = seen @ [v]\<rparr>"
        by (subst runLoop_from.simps) (simp add: produced_def v_def Let_def)
      then show ?thesis using True by auto
    next
      case False
      with Suc.prems have lt: "iteration + 1 < maxIterations" by simp
      from Suc.hyps(2) lt have k: "k = maxIterations - (iteration + 1)" by simp
      from Suc.hyps(1) [OF k lt, of produced "Some (feedback_of v)" "seen @ [v]"]
      obtain r where r: "runLoop_from P C maxIterations produced (Some (feedback_of v))
            (iteration + 1) (seen @ [v]) = Some r"
        "length (seen @ [v]) < length (verdicts r)"
        "length (verdicts r) \<le> length (seen @ [v]) + (maxIterations - (iteration + 1))"
        "(\<forall>i a. C i a \<noteq> Approve) \<longrightarrow>
          length (verdicts r) = length (seen @ [v]) + (maxIterations - (iteration + 1))
          \<and> outcome r = auto_approved_at_cap"
        by blast
      from notApprove False have "runLoop_from P C maxIterations cur fb iteration seen =
        runLoop_from P C maxIterations produced (Some (feedback_of v)) (iteration + 1) (seen @ [v])"
        by (subst runLoop_from.simps) (simp add: produced_def v_def Let_def)
      with r lt show ?thesis by auto
    qed
  qed
qed

text \<open>
  Claim C1.  For every \<open>maxIterations \<ge> 1\<close> the critique loop returns, after at least one
  and at most \<open>maxIterations\<close> producer/critic rounds; when the critic never approves it
  returns after exactly \<open>maxIterations\<close> rounds with the outcome
  \<open>auto_approved_at_cap\<close>.
\<close>

theorem runLoop_bounded:
  assumes "1 \<le> maxIterations"
  shows "\<exists>r. runLoop producerAgent criticAgent initial maxIterations = Some r
           \<and> 1 \<le> rounds r \<and> rounds r \<le> maxIterations
           \<and> ((\<forall>i a. criticAgent i a \<noteq> Approve) \<longrightarrow>
                 rounds r = maxIterations \<and> outcome r = auto_approved_at_cap)"
proof -
  from assms have "0 < maxIterations" by simp
  from runLoop_from_returns [OF this, of producerAgent criticAgent initial None "[]"]
  obtain r where r: "runLoop_from producerAgent criticAgent maxIterations initial None 0 [] = Some r"
    "length ([]::verdict list) < length (verdicts r)"
    "length (verdicts r) \<le> length ([]::verdict list) + (maxIterations - 0)"
    "(\<forall>i a. criticAgent i a \<noteq> Approve) \<longrightarrow>
        length (verdicts r) = length ([]::verdict list) + (maxIterations - 0)
        \<and> outcome r = auto_approved_at_cap"
    by blast
  from r(2) have "1 \<le> rounds r" by (simp add: rounds_def Suc_le_eq)
  moreover from r(3) have "rounds r \<le> maxIterations" by (simp add: rounds_def)
  moreover from r(4) have "(\<forall>i a. criticAgent i a \<noteq> Approve) \<longrightarrow>
        rounds r = maxIterations \<and> outcome r = auto_approved_at_cap"
    by (simp add: rounds_def)
  ultimately show ?thesis using r(1) by (simp add: runLoop_def)
qed

theorem runLoop_bounded_witness:
  "(1::nat) \<le> 2 \<and>
   (\<exists>r. runLoop (\<lambda>i draft feedback. draft) (\<lambda>i draft. Revise ''tighten the plot'') ''plan'' 2 = Some r
        \<and> rounds r = 2 \<and> outcome r = auto_approved_at_cap)"
  using runLoop_bounded [of 2 "\<lambda>i draft feedback. draft" "\<lambda>i draft. Revise ''tighten the plot''" "''plan''"]
  by auto

subsection \<open>TokenBudgetManager and the colour of the usage bar\<close>

text \<open>
  Claim C2, as amended.  \<open>shouldCompress\<close> holds exactly when the estimated usage has
  reached the trigger threshold.  The usage bar of the dashboard is red exactly when
  \<open>tokenPercentage\<close> is strictly above 90: at exactly 90 percent, where compression is
  already due, the bar is still yellow.
\<close>

theorem compression_trigger_and_red_bar:
  "(shouldCompress b \<longleftrightarrow> trigger_threshold b \<le> estimated_count b)
   \<and> (tokenBarClass tokenPercentage = ''bg-red-600'' \<longleftrightarrow> 90 < tokenPercentage)
   \<and> (tokenBarClass tokenPercentage = ''bg-yellow-600'' \<longleftrightarrow>
        75 < tokenPercentage \<and> tokenPercentage \<le> 90)"
  by (simp add: shouldCompress_def tokenBarClass_def)

text \<open>With 180,000 of 200,000 tokens used the budget is at its threshold, usage is at 90
  percent, and the bar drawn for 90 percent is yellow, not red.\<close>

theorem red_bar_at_90_counterexample:
  "shouldCompress ((new_budget 200000)\<lparr>estimated_count := 180000\<rparr>)
   \<and> usage_percentage ((new_budget 200000)\<lparr>estimated_count := 180000\<rparr>) = 90
   \<and> render_token_usage 200000 90 = Some \<lparr>bar_class = ''bg-yellow-600'', bar_width = 90\<rparr>
   \<and> tokenBarClass 90 \<noteq> ''bg-red-600''"
  by (simp add: shouldCompress_def new_budget_def usage_percentage_def tokenBarClass_def
      render_token_usage_def)

subsection \<open>The phase tracker\<close>

text \<open>
  Claim C8.  For a phase that is none of the four displayed ones, \<open>getCurrentPhaseIndex\<close>
  is \<open>-1\<close>; each of the four steps is then neither active nor completed and is drawn in
  the grey of a step not started, and every connector is grey.  The terminal phase
  \<open>COMPLETE\<close> is such a phase.
\<close>

theorem unknown_phase_no_step_marked:
  assumes "phase \<notin> set (map name phases)"
  shows "getCurrentPhaseIndex phase = - 1
    \<and> length (render_phase_steps phase) = 4
    \<and> (\<forall>s \<in> set (render_phase_steps phase).
          \<not> isActive s \<and> \<not> isCompleted s
          \<and> circle_class s = ''bg-gray-200 text-gray-400''
          \<and> label_class s = ''text-gray-400''
          \<and> connector_class s \<noteq> Some ''bg-green-600'')"
proof -
  have idx: "getCurrentPhaseIndex phase = - 1"
    using assms unfolding getCurrentPhaseIndex_def findIndex_def
    by (intro findIndex_from_none) auto
  have len: "length (render_phase_steps phase) = 4"
    by (simp add: render_phase_steps_def phases_def)
  have "\<not> isActive s \<and> \<not> isCompleted s
          \<and> circle_class s = ''bg-gray-200 text-gray-400''
          \<and> label_class s = ''text-gray-400''
          \<and> connector_class s \<noteq> Some ''bg-green-600''"
    if "s \<in> set (render_phase_steps phase)" for s
  proof -
    from that obtain i p where "s = render_step (getCurrentPhaseIndex phase) (int i) p"
      by (auto simp: render_phase_steps_def)
    with idx show ?thesis
      by (simp add: render_step_def Let_def)
  qed
  with idx len show ?thesis by blast
qed

theorem unknown_phase_no_step_marked_witness:
  "''COMPLETE'' \<notin> set (map name phases)
   \<and> getCurrentPhaseIndex ''COMPLETE'' = - 1
   \<and> map (\<lambda>s. (isActive s, isCompleted s, circle_class s)) (render_phase_steps ''COMPLETE'') =
       [(False, False, ''bg-gray-200 text-gray-400''), (False, False, ''bg-gray-200 text-gray-400''),
        (False, False, ''bg-gray-200 text-gray-400''), (False, False, ''bg-gray-200 text-gray-400'')]"
proof -
  have c: "''COMPLETE'' \<notin> set (map name phases)"
    by (simp add: phases_def)
  from unknown_phase_no_step_marked [OF c]
  have idx: "getCurrentPhaseIndex ''COMPLETE'' = - 1" by blast
  have "map (\<lambda>s. (isActive s, isCompleted s, circle_class s)) (render_phase_steps ''COMPLETE'') =
       [(False, False, ''bg-gray-200 text-gray-400''), (False, False, ''bg-gray-200 text-gray-400''),
        (False, False, ''bg-gray-200 text-gray-400''), (False, False, ''bg-gray-200 text-gray-400'')]"
    by (simp add: render_phase_steps_def idx phases_def enumerate_eq_zip render_step_def
        Let_def upt_rec)
  with c idx show ?thesis by blast
qed

subsection \<open>ProjectBrowser\<close>

text \<open>
  Claim C9.  When the call of the backend is rejected, \<open>handleDelete\<close> leaves the state as
  it is: the list of projects is unchanged and the confirmation dialog stays as it was.
  When the call succeeds the project is filtered out of the list and the dialog is
  closed; the state changes only then.
\<close>

theorem handleDelete_only_after_success:
  "(deleteProject projectId = Inl err \<longrightarrow>
      handleDelete deleteProject projectId st = st
      \<and> projects (handleDelete deleteProject projectId st) = projects st
      \<and> deleteConfirm (handleDelete deleteProject projectId st) = deleteConfirm st)
   \<and> (deleteProject projectId = Inr () \<longrightarrow>
        projects (handleDelete deleteProject projectId st)
          = filter (\<lambda>p. project_id p \<noteq> projectId) (projects st)
        \<and> deleteConfirm (handleDelete deleteProject projectId st) = None)
   \<and> (handleDelete deleteProject projectId st \<noteq> st \<longrightarrow> deleteProject projectId = Inr ())"
  by (auto simp: handleDelete_def split: sum.splits)

theorem handleDelete_only_after_success_witness:
  "handleDelete (\<lambda>i. Inl ''HTTP 500'') ''novel_1''
      \<lparr>projects = [\<lparr>project_id = ''novel_1''\<rparr>, \<lparr>project_id = ''novel_2''\<rparr>],
       deleteConfirm = Some ''novel_1''\<rparr>
    = \<lparr>projects = [\<lparr>project_id = ''novel_1''\<rparr>, \<lparr>project_id = ''novel_2''\<rparr>],
       deleteConfirm = Some ''novel_1''\<rparr>
   \<and> handleDelete (\<lambda>i. Inr ()) ''novel_1''
      \<lparr>projects = [\<lparr>project_id = ''novel_1''\<rparr>, \<lparr>project_id = ''novel_2''\<rparr>],
       deleteConfirm = Some ''novel_1''\<rparr>
    = \<lparr>projects = [\<lparr>project_id = ''novel_2''\<rparr>], deleteConfirm = None\<rparr>"
  using handleDelete_only_after_success [of "\<lambda>i. Inl ''HTTP 500''" "''novel_1''" "''HTTP 500''"
      "\<lparr>projects = [\<lparr>project_id = ''novel_1''\<rparr>, \<lparr>project_id = ''novel_2''\<rparr>],
        deleteConfirm = Some ''novel_1''\<rparr>"]
    handleDelete_only_after_success [of "\<lambda>i. Inr ()" "''novel_1''" "''HTTP 500''"
      "\<lparr>projects = [\<lparr>project_id = ''novel_1''\<rparr>, \<lparr>project_id = ''novel_2''\<rparr>],
        deleteConfirm = Some ''novel_1''\<rparr>"]
  by (simp add: handleDelete_def)

subsection \<open>ApprovalModal: decisions\<close>

text \<open>
  Claim C4.  The decision handed over by the Approve button has \<open>approved = True\<close>, the
  one handed over by the Reject button has \<open>approved = False\<close>; both carry the same
  notes, which are absent when the notes field holds nothing but white space and are the
  trimmed, non-empty text of the field otherwise.
\<close>

theorem modal_decision_shape:
  "approved (fst (handleApprove notes_text)) = True
   \<and> approved (fst (handleReject notes_text)) = False
   \<and> decision_notes (fst (handleReject notes_text)) = decision_notes (fst (handleApprove notes_text))
   \<and> decision_notes (fst (handleApprove notes_text)) =
        (if (\<forall>c \<in> set notes_text. isWhiteSpace c) then None else Some (trim notes_text))
   \<and> decision_notes (fst (handleApprove notes_text)) \<noteq> Some []"
  by (simp add: handleApprove_def handleReject_def or_undefined_def trim_empty_iff)

theorem modal_decision_shape_witness:
  "fst (handleApprove ''  looks good '') = \<lparr>approved = True, decision_notes = Some ''looks good''\<rparr>
   \<and> fst (handleReject ''  looks good '') = \<lparr>approved = False, decision_notes = Some ''looks good''\<rparr>
   \<and> fst (handleApprove ''   '') = \<lparr>approved = True, decision_notes = None\<rparr>
   \<and> fst (handleReject []) = \<lparr>approved = False, decision_notes = None\<rparr>"
  using modal_decision_shape [of "''  looks good ''"] modal_decision_shape [of "''   ''"]
    modal_decision_shape [of "[]"]
  by (simp add: handleApprove_def handleReject_def or_undefined_def trim_def isWhiteSpace_def)

subsection \<open>ApprovalModal: what a rejection is\<close>




subsection \<open>ApprovalModal: the files to review\<close>

lemma digit_char_not_space: "d < 10 \<Longrightarrow> digit_char d \<noteq> CHR '' ''"
proof -
  assume "d < 10"
  then have "d \<in> {0, 1, 2, 3, 4, 5, 6, 7, 8, 9}" by auto
  then show ?thesis by (auto simp: digit_char_def)
qed

lemma show_nat_no_space: "CHR '' '' \<notin> set (show_nat n)"
proof (induction n rule: show_nat.induct)
  case (1 n)
  show ?case
  proof (cases "n < 10")
    case True
    then show ?thesis
      by (subst show_nat.simps) (simp add: digit_char_not_space [symmetric])
  next
    case False
    have "digit_char (n mod 10) \<noteq> CHR '' ''"
      by (rule digit_char_not_space) simp
    with 1 False show ?thesis
      by (subst show_nat.simps) auto
  qed
qed

lemma listed_file_entry:
  "CHR '' '' \<notin> set f \<Longrightarrow> listed_file (f @ CHR '' '' # rest) = f"
  unfolding listed_file_def by (induction f) auto

lemma listed_chunk_file:
  "listed_file (''chunk_'' @ show_nat n @ ''.txt - Chunk content'') = chunk_file n"
proof -
  have "CHR '' '' \<notin> set (chunk_file n)"
    by (simp add: chunk_file_def show_nat_no_space)
  from listed_file_entry [OF this, of "''- Chunk content''"]
  show ?thesis by (simp add: chunk_file_def)
qed

text \<open>
  Claim C7, as amended.  For a plan approval the modal lists exactly the four planning
  files.  For a chunk approval it lists exactly one entry, \<^verbatim>\<open>chunk_\<close>, the chunk number as
  the template literal prints it, \<^verbatim>\<open>.txt - Chunk content\<close>.  The chunk number printed is
  that of the approval data when it is there and truthy: when it prints as the decimal
  numeral of \<open>N\<close>, the file listed is \<^verbatim>\<open>chunk_N.txt\<close>.  When the approval data or the
  chunk number are missing, or the number is falsy (0 for one), the entry is the
  placeholder \<^verbatim>\<open>chunk_?.txt\<close>.
\<close>

theorem files_to_review:
  "files (getApprovalInfo ToBoolean ToString ''plan'' approvalData) =
     [''summary.txt - Story summary'', ''dramatis_personae.txt - Character descriptions'',
      ''story_structure.txt - Three-act structure'', ''plot_outline.txt - Chunk-by-chunk outline'']
   \<and> map listed_file (files (getApprovalInfo ToBoolean ToString ''plan'' approvalData)) =
     [''summary.txt'', ''dramatis_personae.txt'', ''story_structure.txt'', ''plot_outline.txt'']
   \<and> (approvalData = Some d \<and> chunk_number d = Some v \<and> ToBoolean v \<longrightarrow>
        files (getApprovalInfo ToBoolean ToString ''chunk'' approvalData) =
          [''chunk_'' @ ToString v @ ''.txt - Chunk content''])
   \<and> (approvalData = Some d \<and> chunk_number d = Some v \<and> ToBoolean v
        \<and> ToString v = show_nat n \<longrightarrow>
        map listed_file (files (getApprovalInfo ToBoolean ToString ''chunk'' approvalData)) =
          [chunk_file n])
   \<and> (approvalData = None
        \<or> (approvalData = Some d
            \<and> (chunk_number d = None \<or> (chunk_number d = Some v \<and> \<not> ToBoolean v))) \<longrightarrow>
        files (getApprovalInfo ToBoolean ToString ''chunk'' approvalData) =
          [''chunk_?.txt - Chunk content''])"
proof -
  have plan: "files (getApprovalInfo ToBoolean ToString ''plan'' approvalData) =
     [''summary.txt - Story summary'', ''dramatis_personae.txt - Character descriptions'',
      ''story_structure.txt - Three-act structure'', ''plot_outline.txt - Chunk-by-chunk outline'']"
    by (simp add: getApprovalInfo_def)
  have names: "map listed_file (files (getApprovalInfo ToBoolean ToString ''plan'' approvalData)) =
     [''summary.txt'', ''dramatis_personae.txt'', ''story_structure.txt'', ''plot_outline.txt'']"
    by (simp add: getApprovalInfo_def listed_file_def)
  have printed: "approvalData = Some d \<and> chunk_number d = Some v \<and> ToBoolean v \<longrightarrow>
        files (getApprovalInfo ToBoolean ToString ''chunk'' approvalData) =
          [''chunk_'' @ ToString v @ ''.txt - Chunk content'']"
    by (auto simp: getApprovalInfo_def chunk_number_text_def)
  have numeral: "approvalData = Some d \<and> chunk_number d = Some v \<and> ToBoolean v
        \<and> ToString v = show_nat n \<longrightarrow>
        map listed_file (files (getApprovalInfo ToBoolean ToString ''chunk'' approvalData)) =
          [chunk_file n]"
  proof (intro impI)
    assume a: "approvalData = Some d \<and> chunk_number d = Some v \<and> ToBoolean v
        \<and> ToString v = show_nat n"
    with printed have "files (getApprovalInfo ToBoolean ToString ''chunk'' approvalData) =
          [''chunk_'' @ show_nat n @ ''.txt - Chunk content'']"
      by simp
    then show "map listed_file (files (getApprovalInfo ToBoolean ToString ''chunk'' approvalData)) =
          [chunk_file n]"
      using listed_chunk_file [of n] by simp
  qed
  have placeholder: "approvalData = None
        \<or> (approvalData = Some d
            \<and> (chunk_number d = None \<or> (chunk_number d = Some v \<and> \<not> ToBoolean v))) \<longrightarrow>
        files (getApprovalInfo ToBoolean ToString ''chunk'' approvalData) =
          [''chunk_?.txt - Chunk content'']"
    by (auto simp: getApprovalInfo_def chunk_number_text_def)
  from plan names printed numeral placeholder show ?thesis by blast
qed

text \<open>An instance with whole numbers for the chunk number: 0 is the falsy one, and 12
  prints as \<^verbatim>\<open>12\<close>.\<close>

theorem files_to_review_witness:
  "files (getApprovalInfo (\<lambda>i::nat. i \<noteq> 0) show_nat ''chunk'' (Some \<lparr>chunk_number = Some 12\<rparr>)) =
     [''chunk_12.txt - Chunk content'']
   \<and> map listed_file
       (files (getApprovalInfo (\<lambda>i::nat. i \<noteq> 0) show_nat ''chunk'' (Some \<lparr>chunk_number = Some 12\<rparr>))) =
     [''chunk_12.txt'']
   \<and> files (getApprovalInfo (\<lambda>i::nat. i \<noteq> 0) show_nat ''chunk'' (Some \<lparr>chunk_number = None\<rparr>)) =
     [''chunk_?.txt - Chunk content'']"
  using files_to_review [of "\<lambda>i::nat. i \<noteq> 0" show_nat "Some \<lparr>chunk_number = Some 12\<rparr>"
      "\<lparr>chunk_number = Some 12\<rparr>" 12 12]
    files_to_review [of "\<lambda>i::nat. i \<noteq> 0" show_nat "Some \<lparr>chunk_number = None\<rparr>"
      "\<lparr>chunk_number = None\<rparr>" 0 0]
  by (simp add: chunk_file_def show_nat.simps digit_char_def listed_file_def)

text \<open>A chunk approval without approval data, or with the chunk number 0, lists
  \<^verbatim>\<open>chunk_?.txt\<close>, which names no chunk.\<close>

theorem chunk_placeholder_counterexample:
  "files (getApprovalInfo (\<lambda>i::nat. i \<noteq> 0) show_nat ''chunk'' None) =
     [''chunk_?.txt - Chunk content'']
   \<and> files (getApprovalInfo (\<lambda>i::nat. i \<noteq> 0) show_nat ''chunk'' (Some \<lparr>chunk_number = Some 0\<rparr>)) =
       [''chunk_?.txt - Chunk content'']"
  by (simp add: getApprovalInfo_def chunk_number_text_def)

subsection \<open>ConfigPanel: validation\<close>

lemma newErrors_empty_iff: "newErrors c = [] \<longleftrightarrow> spec_valid c"
  by (auto simp: newErrors_def spec_valid_def not_trimmed_def word_count_too_small_def
      split: option.splits)

lemma errors_after_submit: "errors (fst (handleSubmit st)) = newErrors (config st)"
  by (simp add: handleSubmit_def validate_def Let_def)

lemma newErrors_fields:
  "(''project_name'' \<in> fst ` set (newErrors c) \<longleftrightarrow> \<not> (\<exists>s. project_name c = Some s \<and> trim s \<noteq> []))"
  "(''theme'' \<in> fst ` set (newErrors c) \<longleftrightarrow> \<not> (\<exists>s. theme c = Some s \<and> trim s \<noteq> []))"
  "(''custom_word_count'' \<in> fst ` set (newErrors c) \<longleftrightarrow>
      novel_length c = ''custom'' \<and> \<not> (\<exists>n. custom_word_count c = Some n \<and> 1000 \<le> n))"
  "(''custom_writing_sample'' \<in> fst ` set (newErrors c) \<longleftrightarrow>
      custom_writing_sample c \<noteq> [] \<and> length (custom_writing_sample c) < 100)"
  by (auto simp: newErrors_def not_trimmed_def word_count_too_small_def split: option.splits)

text \<open>
  Claim C5.  Submitting the form calls \<open>onSave\<close>, with the configuration, exactly when the
  configuration is valid in the words of the specification, and does not call it
  otherwise.  The configuration in the state is unchanged either way.  The recorded
  errors are empty exactly when the configuration is valid, and there is an error for a
  field exactly when that field fails its check.
\<close>

theorem handleSubmit_saves_iff_valid:
  "(snd (handleSubmit st) = Some (config st) \<longleftrightarrow> spec_valid (config st))
   \<and> (snd (handleSubmit st) = None \<longleftrightarrow> \<not> spec_valid (config st))
   \<and> config (fst (handleSubmit st)) = config st
   \<and> (errors (fst (handleSubmit st)) = [] \<longleftrightarrow> spec_valid (config st))
   \<and> (''project_name'' \<in> fst ` set (errors (fst (handleSubmit st))) \<longleftrightarrow>
        \<not> (\<exists>s. project_name (config st) = Some s \<and> trim s \<noteq> []))
   \<and> (''theme'' \<in> fst ` set (errors (fst (handleSubmit st))) \<longleftrightarrow>
        \<not> (\<exists>s. theme (config st) = Some s \<and> trim s \<noteq> []))
   \<and> (''custom_word_count'' \<in> fst ` set (errors (fst (handleSubmit st))) \<longleftrightarrow>
        novel_length (config st) = ''custom''
        \<and> \<not> (\<exists>n. custom_word_count (config st) = Some n \<and> 1000 \<le> n))
   \<and> (''custom_writing_sample'' \<in> fst ` set (errors (fst (handleSubmit st))) \<longleftrightarrow>
        custom_writing_sample (config st) \<noteq> []
        \<and> length (custom_writing_sample (config st)) < 100)"
proof -
  have "(snd (handleSubmit st) = Some (config st) \<longleftrightarrow> spec_valid (config st))
   \<and> (snd (handleSubmit st) = None \<longleftrightarrow> \<not> spec_valid (config st))
   \<and> config (fst (handleSubmit st)) = config st
   \<and> (errors (fst (handleSubmit st)) = [] \<longleftrightarrow> spec_valid (config st))"
    by (simp add: handleSubmit_def validate_def Let_def newErrors_empty_iff)
  then show ?thesis
    by (simp only: errors_after_submit newErrors_fields simp_thms)
qed

theorem handleSubmit_saves_iff_valid_witness:
  "handleSubmit \<lparr>config = default_config\<lparr>project_name := Some ''My Novel'',
                                          theme := Some ''A detective story''\<rparr>,
                 errors = []\<rparr>
     = (\<lparr>config = default_config\<lparr>project_name := Some ''My Novel'',
                                  theme := Some ''A detective story''\<rparr>,
         errors = []\<rparr>,
        Some (default_config\<lparr>project_name := Some ''My Novel'',
                             theme := Some ''A detective story''\<rparr>))
   \<and> handleSubmit \<lparr>config = default_config\<lparr>project_name := Some ''  '',
                                            novel_length := ''custom'',
                                            custom_word_count := Some 999\<rparr>,
                   errors = []\<rparr>
     = (\<lparr>config = default_config\<lparr>project_name := Some ''  '',
                                  novel_length := ''custom'',
                                  custom_word_count := Some 999\<rparr>,
         errors = [(''project_name'', ''Project name is required''),
                   (''theme'', ''Theme is required''),
                   (''custom_word_count'', ''Word count must be at least 1,000 words'')]\<rparr>,
        None)"
  using handleSubmit_saves_iff_valid
      [of "\<lparr>config = default_config\<lparr>project_name := Some ''My Novel'',
                                      theme := Some ''A detective story''\<rparr>,
             errors = []\<rparr>"]
    handleSubmit_saves_iff_valid
      [of "\<lparr>config = default_config\<lparr>project_name := Some ''  '',
                                      novel_length := ''custom'',
                                      custom_word_count := Some 999\<rparr>,
             errors = []\<rparr>"]
  by (simp add: handleSubmit_def validate_def newErrors_def default_config_def not_trimmed_def
      word_count_too_small_def trim_def isWhiteSpace_def Let_def)

subsection \<open>The request that creates a project\<close>

lemma selectedStyle_sample:
  "selectedStyle cards = Some style \<Longrightarrow> \<exists>s. sample style = Some s \<and> trim s \<noteq> [] \<and> s \<noteq> []"
  by (auto simp: selectedStyle_def find_Some_iff not_trimmed_def trim_def split: option.splits)

lemma home_body:
  "JSON_stringify (home_config f) =
     (if trim (form_title f) = [] then [] else [(''project_name'', JStr (trim (form_title f)))]) @
     [(''theme'', JStr (trim (premise f)))] @
     (if form_length f = ''ai_decide'' then [] else [(''novel_length'', JStr (form_length f))]) @
     (if trim (form_genre f) = [] then [] else [(''genre'', JStr (trim (form_genre f)))]) @
     (case selectedStyle (styleCards f) of
        None \<Rightarrow> []
      | Some style \<Rightarrow>
          (case sample style of None \<Rightarrow> [] | Some s \<Rightarrow> [(''custom_writing_sample'', JStr s)])) @
     [(''require_plan_approval'', JBool (requirePlanApproval f)),
      (''require_chunk_approval'', JBool (requireChunkApproval f)),
      (''max_plan_critique_iterations'',
         json_number (max_plan_critique_iterations (qualityConfig f))),
      (''max_write_critique_iterations'',
         json_number (max_write_critique_iterations (qualityConfig f)))]"
proof (cases "selectedStyle (styleCards f)")
  case None
  then show ?thesis
    by (simp add: JSON_stringify_def home_config_def or_undefined_def)
next
  case (Some style)
  from selectedStyle_sample [OF this] obtain s where "sample style = Some s" "s \<noteq> []" by blast
  with Some show ?thesis
    by (simp add: JSON_stringify_def home_config_def or_undefined_def)
qed

lemma home_body_keys:
  "map fst (JSON_stringify (home_config f)) =
     (if trim (form_title f) = [] then [] else [''project_name'']) @
     [''theme''] @
     (if form_length f = ''ai_decide'' then [] else [''novel_length'']) @
     (if trim (form_genre f) = [] then [] else [''genre'']) @
     (if selectedStyle (styleCards f) = None then [] else [''custom_writing_sample'']) @
     [''require_plan_approval'', ''require_chunk_approval'',
      ''max_plan_critique_iterations'', ''max_write_critique_iterations'']"
proof (cases "selectedStyle (styleCards f)")
  case None
  then show ?thesis by (simp add: home_body)
next
  case (Some style)
  from selectedStyle_sample [OF this] obtain s where "sample style = Some s" by blast
  with Some show ?thesis by (simp add: home_body)
qed

text \<open>
  Claim C6, as amended.  The Home page sends a request exactly when the premise is not
  blank, as a POST to \<^verbatim>\<open>/config\<close>.  Its body always carries the theme (the trimmed
  premise), both approval flags and both critique caps, with the values of the form.  It
  carries the project name, the length, the genre and the writing sample only when the
  form has a title, a length other than \<^verbatim>\<open>ai_decide\<close>, a genre, and a style card with a
  sample that is not blank.  It never carries a model, a word count or a writing-sample
  id.
\<close>

theorem create_request_contents:
  "(trim (premise f) = [] \<longrightarrow> (\<exists>message. handleCreateProject f = Inl message))
   \<and> (trim (premise f) \<noteq> [] \<longrightarrow>
      (\<exists>req. handleCreateProject f = Inr req
         \<and> endpoint req = ''/config'' \<and> http_method req = ''POST''
         \<and> body req =
             (if trim (form_title f) = [] then []
              else [(''project_name'', JStr (trim (form_title f)))]) @
             [(''theme'', JStr (trim (premise f)))] @
             (if form_length f = ''ai_decide'' then []
              else [(''novel_length'', JStr (form_length f))]) @
             (if trim (form_genre f) = [] then []
              else [(''genre'', JStr (trim (form_genre f)))]) @
             (case selectedStyle (styleCards f) of
                None \<Rightarrow> []
              | Some style \<Rightarrow>
                  (case sample style of
                     None \<Rightarrow> []
                   | Some s \<Rightarrow> [(''custom_writing_sample'', JStr s)])) @
             [(''require_plan_approval'', JBool (requirePlanApproval f)),
              (''require_chunk_approval'', JBool (requireChunkApproval f)),
              (''max_plan_critique_iterations'',
                 json_number (max_plan_critique_iterations (qualityConfig f))),
              (''max_write_critique_iterations'',
                 json_number (max_write_critique_iterations (qualityConfig f)))]
         \<and> map fst (body req) =
             (if trim (form_title f) = [] then [] else [''project_name'']) @
             [''theme''] @
             (if form_length f = ''ai_decide'' then [] else [''novel_length'']) @
             (if trim (form_genre f) = [] then [] else [''genre'']) @
             (if selectedStyle (styleCards f) = None then [] else [''custom_writing_sample'']) @
             [''require_plan_approval'', ''require_chunk_approval'',
              ''max_plan_critique_iterations'', ''max_write_critique_iterations'']
         \<and> ''model_id'' \<notin> set (map fst (body req))
         \<and> ''custom_word_count'' \<notin> set (map fst (body req))
         \<and> ''writing_sample_id'' \<notin> set (map fst (body req))))"
proof -
  have blank: "\<exists>message. handleCreateProject f = Inl message" if "trim (premise f) = []"
    using that by (simp add: handleCreateProject_def)
  have sent: "handleCreateProject f = Inr (createProject (home_config f))"
    if "trim (premise f) \<noteq> []"
    using that by (simp add: handleCreateProject_def)
  have req: "endpoint (createProject (home_config f)) = ''/config''"
    "http_method (createProject (home_config f)) = ''POST''"
    "body (createProject (home_config f)) = JSON_stringify (home_config f)"
    by (simp_all add: createProject_def)
  have absent: "''model_id'' \<notin> set (map fst (JSON_stringify (home_config f)))"
    "''custom_word_count'' \<notin> set (map fst (JSON_stringify (home_config f)))"
    "''writing_sample_id'' \<notin> set (map fst (JSON_stringify (home_config f)))"
    unfolding home_body_keys by simp_all
  show ?thesis
  proof (intro conjI impI)
    assume "trim (premise f) = []"
    then show "\<exists>message. handleCreateProject f = Inl message" by (rule blank)
  next
    assume "trim (premise f) \<noteq> []"
    from sent [OF this] show "\<exists>req. handleCreateProject f = Inr req
         \<and> endpoint req = ''/config'' \<and> http_method req = ''POST''
         \<and> body req =
             (if trim (form_title f) = [] then []
              else [(''project_name'', JStr (trim (form_title f)))]) @
             [(''theme'', JStr (trim (premise f)))] @
             (if form_length f = ''ai_decide'' then []
              else [(''novel_length'', JStr (form_length f))]) @
             (if trim (form_genre f) = [] then []
              else [(''genre'', JStr (trim (form_genre f)))]) @
             (case selectedStyle (styleCards f) of
                None \<Rightarrow> []
              | Some style \<Rightarrow>
                  (case sample style of
                     None \<Rightarrow> []
                   | Some s \<Rightarrow> [(''custom_writing_sample'', JStr s)])) @
             [(''require_plan_approval'', JBool (requirePlanApproval f)),
              (''require_chunk_approval'', JBool (requireChunkApproval f)),
              (''max_plan_critique_iterations'',
                 json_number (max_plan_critique_iterations (qualityConfig f))),
              (''max_write_critique_iterations'',
                 json_number (max_write_critique_iterations (qualityConfig f)))]
         \<and> map fst (body req) =
             (if trim (form_title f) = [] then [] else [''project_name'']) @
             [''theme''] @
             (if form_length f = ''ai_decide'' then [] else [''novel_length'']) @
             (if trim (form_genre f) = [] then [] else [''genre'']) @
             (if selectedStyle (styleCards f) = None then [] else [''custom_writing_sample'']) @
             [''require_plan_approval'', ''require_chunk_approval'',
              ''max_plan_critique_iterations'', ''max_write_critique_iterations'']
         \<and> ''model_id'' \<notin> set (map fst (body req))
         \<and> ''custom_word_count'' \<notin> set (map fst (body req))
         \<and> ''writing_sample_id'' \<notin> set (map fst (body req))"
      using req absent home_body [of f] home_body_keys [of f] by (intro exI [of _ "createProject (home_config f)"]) (simp only: simp_thms)
  qed
qed

theorem create_request_contents_witness:
  "handleCreateProject
       ((initial_home_form ''A detective story'')
          \<lparr>form_genre := ''Mystery'', form_length := ''novella'',
           styleCards := [\<lparr>card_name = [], sample = Some []\<rparr>,
                          \<lparr>card_name = ''Doyle'', sample = Some ''It was a cold morning.''\<rparr>,
                          \<lparr>card_name = [], sample = Some []\<rparr>]\<rparr>)
     = Inr \<lparr>endpoint = ''/config'', http_method = ''POST'',
            body = [(''theme'', JStr ''A detective story''),
                    (''novel_length'', JStr ''novella''),
                    (''genre'', JStr ''Mystery''),
                    (''custom_writing_sample'', JStr ''It was a cold morning.''),
                    (''require_plan_approval'', JBool True),
                    (''require_chunk_approval'', JBool False),
                    (''max_plan_critique_iterations'', JNum 2),
                    (''max_write_critique_iterations'', JNum 2)]\<rparr>
   \<and> handleCreateProject (initial_home_form ''   '') = Inl ''Please enter a premise for your novel''"
  using create_request_contents
      [of "(initial_home_form ''A detective story'')
          \<lparr>form_genre := ''Mystery'', form_length := ''novella'',
           styleCards := [\<lparr>card_name = [], sample = Some []\<rparr>,
                          \<lparr>card_name = ''Doyle'', sample = Some ''It was a cold morning.''\<rparr>,
                          \<lparr>card_name = [], sample = Some []\<rparr>]\<rparr>"]
    create_request_contents [of "initial_home_form ''   ''"]
  by (simp add: handleCreateProject_def initial_home_form_def createProject_def home_config_def
      JSON_stringify_def selectedStyle_def not_trimmed_def trim_def isWhiteSpace_def
      or_undefined_def json_number_def)

text \<open>The request of the Home page for a form left at its defaults, with a premise typed
  in: it has no model, no genre, no length and no writing sample.\<close>

theorem home_request_counterexample:
  "handleCreateProject (initial_home_form ''A detective story'') =
     Inr \<lparr>endpoint = ''/config'', http_method = ''POST'',
          body = [(''theme'', JStr ''A detective story''),
                  (''require_plan_approval'', JBool True),
                  (''require_chunk_approval'', JBool False),
                  (''max_plan_critique_iterations'', JNum 2),
                  (''max_write_critique_iterations'', JNum 2)]\<rparr>"
  by (simp add: handleCreateProject_def initial_home_form_def createProject_def home_config_def
      JSON_stringify_def selectedStyle_def not_trimmed_def trim_def isWhiteSpace_def
      or_undefined_def json_number_def)

end
